theory Spec2Isabelle
  imports Complex_Main
begin

section \<open>Strings and characters\<close>

text \<open>
  JavaScript strings are modelled as \<^typ>\<open>string\<close>. The character classes of the regular
  expressions in the source (\<open>\d\<close>, \<open>\s\<close>, \<open>\w\<close>, \<open>[a-zA-Z]\<close>) and \<open>toLowerCase\<close> are
  given on ASCII; a character outside ASCII (the rupee sign, written as its three UTF-8
  bytes) is neither a digit, a letter, a word character nor white space. JavaScript
  numbers are modelled as exact rationals: the rounding of IEEE doubles is not part of
  the model.
\<close>

definition isDigit :: "char \<Rightarrow> bool" where
  "isDigit c = (48 \<le> (of_char c :: nat) \<and> (of_char c :: nat) \<le> 57)"

definition isUpper :: "char \<Rightarrow> bool" where
  "isUpper c = (65 \<le> (of_char c :: nat) \<and> (of_char c :: nat) \<le> 90)"

definition isLower :: "char \<Rightarrow> bool" where
  "isLower c = (97 \<le> (of_char c :: nat) \<and> (of_char c :: nat) \<le> 122)"

definition isAlpha :: "char \<Rightarrow> bool" where
  "isAlpha c = (isUpper c \<or> isLower c)"

text \<open>The class \<open>\w\<close>, which decides where \<open>\b\<close> holds.\<close>

definition isWordChar :: "char \<Rightarrow> bool" where
  "isWordChar c = (isAlpha c \<or> isDigit c \<or> c = CHR ''_'')"

text \<open>The class \<open>\s\<close>: tab, line feed, vertical tab, form feed, carriage return, space.\<close>

definition isSpace :: "char \<Rightarrow> bool" where
  "isSpace c = ((9 \<le> (of_char c :: nat) \<and> (of_char c :: nat) \<le> 13) \<or> c = CHR '' '')"

definition toLowerChar :: "char \<Rightarrow> char" where
  "toLowerChar c = (if isUpper c then char_of ((of_char c :: nat) + 32) else c)"

definition toLowerCase :: "string \<Rightarrow> string" where
  "toLowerCase s = map toLowerChar s"

definition trim :: "string \<Rightarrow> string" where
  "trim s = rev (dropWhile isSpace (rev (dropWhile isSpace s)))"

fun startsWith :: "string \<Rightarrow> string \<Rightarrow> bool" where
  "startsWith s [] = True"
| "startsWith [] (p # ps) = False"
| "startsWith (c # cs) (p # ps) = (c = p \<and> startsWith cs ps)"

definition endsWith :: "string \<Rightarrow> string \<Rightarrow> bool" where
  "endsWith s p = startsWith (rev s) (rev p)"

text \<open>\<open>s.includes(p)\<close>: \<open>p\<close> occurs in \<open>s\<close> as a contiguous substring.\<close>

fun includesStr :: "string \<Rightarrow> string \<Rightarrow> bool" where
  "includesStr [] p = (p = [])"
| "includesStr (c # cs) p = (startsWith (c # cs) p \<or> includesStr cs p)"

text \<open>
  \<open>\b\<close> between the character before a position and the one after it (\<open>None\<close> at either
  end of the string): exactly one of the two is a word character.
\<close>

definition wordBoundary :: "char option \<Rightarrow> char option \<Rightarrow> bool" where
  "wordBoundary prev nxt =
     ((case prev of None \<Rightarrow> False | Some c \<Rightarrow> isWordChar c) \<noteq>
      (case nxt of None \<Rightarrow> False | Some c \<Rightarrow> isWordChar c))"

definition headOpt :: "string \<Rightarrow> char option" where
  "headOpt s = (case s of [] \<Rightarrow> None | c # _ \<Rightarrow> Some c)"

text \<open>\<open>parseFloat\<close> on the text \<open>digits\<close> or \<open>digits.digits\<close> that the patterns capture.\<close>

definition digitVal :: "char \<Rightarrow> nat" where
  "digitVal c = (of_char c :: nat) - 48"

definition digitsValue :: "string \<Rightarrow> nat" where
  "digitsValue ds = foldl (\<lambda>acc c. 10 * acc + digitVal c) 0 ds"

definition parseFloat :: "string \<Rightarrow> string \<Rightarrow> rat" where
  "parseFloat ip fp = of_nat (digitsValue ip) + of_nat (digitsValue fp) / 10 ^ length fp"

text \<open>
  The sub-pattern \<open>\d+(?:\.\d+)?\<close> at the head of a string: the integer digits, the
  fraction digits (empty when there is no fraction) and the rest. Both repetitions are
  greedy, and in every pattern of the source the text that follows cannot start with a
  digit or a dot, so backtracking into them never finds another match.
\<close>

definition matchNumber :: "string \<Rightarrow> (string \<times> string \<times> string) option" where
  "matchNumber s =
     (let ip = takeWhile isDigit s; r = dropWhile isDigit s in
      if ip = [] then None
      else (case r of
              c # r' \<Rightarrow>
                (if c = CHR ''.'' \<and> takeWhile isDigit r' \<noteq> []
                 then Some (ip, takeWhile isDigit r', dropWhile isDigit r')
                 else Some (ip, [], r))
            | [] \<Rightarrow> Some (ip, [], r)))"

section \<open>batchCsvService: term tokens\<close>












section \<open>batchCsvService: quantities\<close>

datatype category = Weight | Volume | Count | Unknown

text \<open>The object \<open>{ value, unit, category }\<close> that \<open>normalizeQuantity\<close> returns.\<close>

record normalized_quantity =
  nq_value :: rat
  nq_unit :: string
  nq_category :: category

definition WEIGHT_UNITS :: "string list" where
  "WEIGHT_UNITS = [''kg'', ''g'', ''gm'', ''gram'', ''grams'', ''kilogram'', ''kilograms'', ''mg'']"

definition VOLUME_UNITS :: "string list" where
  "VOLUME_UNITS = [''l'', ''lt'', ''ltr'', ''liter'', ''litre'', ''liters'', ''litres'', ''ml'']"

definition COUNT_UNITS :: "string list" where
  "COUNT_UNITS = [''pc'', ''pcs'', ''piece'', ''pieces'', ''pack'', ''packs'']"

definition normalizeUnit :: "string \<Rightarrow> string" where
  "normalizeUnit unit =
     (let u = toLowerCase unit in
      if u = ''gm'' then ''g''
      else if u = ''gram'' \<or> u = ''grams'' then ''g''
      else if u = ''kilogram'' \<or> u = ''kilograms'' then ''kg''
      else if u = ''lt'' \<or> u = ''ltr'' then ''l''
      else if u = ''liter'' \<or> u = ''litre'' \<or> u = ''liters'' \<or> u = ''litres'' then ''l''
      else if u = ''piece'' \<or> u = ''pieces'' then ''pc''
      else if u = ''packs'' then ''pack''
      else u)"

definition unitCategory :: "string \<Rightarrow> category" where
  "unitCategory unit =
     (let u = normalizeUnit unit in
      if u \<in> set WEIGHT_UNITS then Weight
      else if u \<in> set VOLUME_UNITS then Volume
      else if u \<in> set COUNT_UNITS then Count
      else Unknown)"

definition normalizeQuantity :: "rat \<Rightarrow> string \<Rightarrow> normalized_quantity" where
  "normalizeQuantity v unit =
     (let u = normalizeUnit unit; cat = unitCategory u in
      if cat = Weight then
        (if u = ''kg'' then \<lparr>nq_value = v * 1000, nq_unit = ''g'', nq_category = cat\<rparr>
         else if u = ''mg'' then \<lparr>nq_value = v / 1000, nq_unit = ''g'', nq_category = cat\<rparr>
         else \<lparr>nq_value = v, nq_unit = ''g'', nq_category = cat\<rparr>)
      else if cat = Volume then
        (if u = ''l'' then \<lparr>nq_value = v * 1000, nq_unit = ''ml'', nq_category = cat\<rparr>
         else \<lparr>nq_value = v, nq_unit = ''ml'', nq_category = cat\<rparr>)
      else if cat = Count then \<lparr>nq_value = v, nq_unit = ''pc'', nq_category = cat\<rparr>
      else \<lparr>nq_value = v, nq_unit = u, nq_category = Unknown\<rparr>)"

text \<open>
  \<open>/\b(\d+(?:\.\d+)?)\s*([a-zA-Z]+)\b/\<close> tried at the head of a string: the number, white
  space, then all the letters that follow; the closing \<open>\b\<close> wants the character after
  the letters not to be a word character. Giving back letters or white space never
  helps, since the closing \<open>\b\<close> then stands between two letters, or the unit would have
  to start with white space.
\<close>

definition quantityAt :: "string \<Rightarrow> (rat \<times> string) option" where
  "quantityAt s =
     (case matchNumber s of
        None \<Rightarrow> None
      | Some (ip, fp, r) \<Rightarrow>
          (let r1 = dropWhile isSpace r; u = takeWhile isAlpha r1; r2 = dropWhile isAlpha r1 in
           if u \<noteq> [] \<and> wordBoundary (Some (last u)) (headOpt r2)
           then Some (parseFloat ip fp, u) else None))"

text \<open>
  The leftmost match of that pattern: \<open>prev\<close> is the character before the position tried,
  for the opening \<open>\b\<close>.
\<close>

fun findQuantity :: "char option \<Rightarrow> string \<Rightarrow> (rat \<times> string) option" where
  "findQuantity prev [] = None"
| "findQuantity prev (c # cs) =
     (case (if wordBoundary prev (Some c) then quantityAt (c # cs) else None) of
        Some m \<Rightarrow> Some m
      | None \<Rightarrow> findQuantity (Some c) cs)"

declare findQuantity.simps [simp del]

definition parseQuantityToken :: "string \<Rightarrow> normalized_quantity option" where
  "parseQuantityToken str =
     (case findQuantity None str of
        None \<Rightarrow> None
      | Some (v, unit) \<Rightarrow> Some (normalizeQuantity v unit))"

definition extractQuantityFromTerm :: "string \<Rightarrow> normalized_quantity option" where
  "extractQuantityFromTerm term =
     (case findQuantity None term of
        None \<Rightarrow> None
      | Some (v, unit) \<Rightarrow> Some (normalizeQuantity v unit))"

text \<open>
  \<open>/(\d+)\s*x\s*(\d+(?:\.\d+)?)\s*([a-zA-Z]+)/i\<close> tried at the head of a string: the
  multiplier, the quantity and the unit.
\<close>

definition multiAt :: "string \<Rightarrow> (nat \<times> rat \<times> string) option" where
  "multiAt s =
     (let m = takeWhile isDigit s in
      if m = [] then None
      else (case dropWhile isSpace (dropWhile isDigit s) of
              [] \<Rightarrow> None
            | x # r1 \<Rightarrow>
                (if x = CHR ''x'' \<or> x = CHR ''X'' then
                   (case matchNumber (dropWhile isSpace r1) of
                      None \<Rightarrow> None
                    | Some (ip, fp, r2) \<Rightarrow>
                        (let u = takeWhile isAlpha (dropWhile isSpace r2) in
                         if u = [] then None
                         else Some (digitsValue m, parseFloat ip fp, u)))
                 else None)))"

fun findMulti :: "string \<Rightarrow> (nat \<times> rat \<times> string) option" where
  "findMulti [] = None"
| "findMulti (c # cs) =
     (case multiAt (c # cs) of Some m \<Rightarrow> Some m | None \<Rightarrow> findMulti cs)"

declare findMulti.simps [simp del]

text \<open>
  \<open>normalizeQuantityValue\<close> on a string (the product's \<open>quantity\<close> field); \<open>""\<close> and the
  sentinel \<open>"N/A"\<close> give \<open>null\<close>.
\<close>

definition normalizeQuantityValue :: "string \<Rightarrow> normalized_quantity option" where
  "normalizeQuantityValue qtyStr =
     (if qtyStr = [] \<or> qtyStr = ''N/A'' then None
      else let str = trim (toLowerCase qtyStr) in
        (case findMulti str of
           Some (multiplier, v, unit) \<Rightarrow>
             (let normalized = normalizeQuantity v unit in
              Some \<lparr>nq_value = nq_value normalized * of_nat multiplier,
                    nq_unit = nq_unit normalized,
                    nq_category = nq_category normalized\<rparr>)
         | None \<Rightarrow> parseQuantityToken str))"

text \<open>\<open>matchesQuantity\<close>: \<open>requestedQty\<close> is \<open>None\<close> for \<open>null\<close>.\<close>

definition matchesQuantity :: "string \<Rightarrow> normalized_quantity option \<Rightarrow> bool" where
  "matchesQuantity productQty requestedQty =
     (case requestedQty of
        None \<Rightarrow> True
      | Some req \<Rightarrow>
          (case normalizeQuantityValue productQty of
             None \<Rightarrow> True
           | Some productQtyNormalized \<Rightarrow>
               (if nq_category req \<noteq> nq_category productQtyNormalized then False
                else let tolerance = nq_value req * (1 / 10);
                         diff = \<bar>nq_value productQtyNormalized - nq_value req\<bar>
                     in diff \<le> tolerance)))"

text \<open>
  The quantity step of the filter loop in \<open>runBlinkitBatchCsv\<close>:
  \<open>if (requestedQty && !matchesQuantity(product.quantity, requestedQty)) continue\<close>,
  with \<open>requestedQty = extractQuantityFromTerm(term)\<close>. True when the product is dropped.
\<close>

definition quantityFilterDrops :: "string \<Rightarrow> string \<Rightarrow> bool" where
  "quantityFilterDrops term productQty =
     (let requestedQty = extractQuantityFromTerm term in
      requestedQty \<noteq> None \<and> \<not> matchesQuantity productQty requestedQty)"

section \<open>JSON values\<close>

text \<open>
  A value produced by \<open>JSON.parse\<close>. An object lists its entries; its keys are distinct.
  Numbers are integers. \<open>undefined\<close>, the value of a missing property, is \<open>None\<close> of
  the option type.
\<close>

datatype json =
    JNull
  | JBool bool
  | JNum int
  | JStr string
  | JArr "json list"
  | JObj "(string \<times> json) list"

text \<open>
  Reading property \<open>k\<close> of a value that is not \<open>null\<close>: only an object has the named
  properties the source reads. On \<open>null\<close> the read throws unless it is written \<open>?.\<close>
  (then it gives \<open>undefined\<close>, as here); the one read of the source that can meet \<open>null\<close>
  without \<open>?.\<close> is \<open>snip.data\<close> in \<open>extractProductInformation\<close>, which is modelled there.
\<close>

fun getProp :: "json \<Rightarrow> string \<Rightarrow> json option" where
  "getProp (JObj kvs) k = map_of kvs k"
| "getProp v k = None"

text \<open>\<open>a.k1.k2\<close>, or \<open>a.k1?.k2\<close>, when \<open>a\<close> is not \<open>null\<close>.\<close>

definition getPath2 :: "json \<Rightarrow> string \<Rightarrow> string \<Rightarrow> json option" where
  "getPath2 v k1 k2 = (case getProp v k1 of None \<Rightarrow> None | Some w \<Rightarrow> getProp w k2)"

fun truthy :: "json \<Rightarrow> bool" where
  "truthy JNull = False"
| "truthy (JBool b) = b"
| "truthy (JNum n) = (n \<noteq> 0)"
| "truthy (JStr s) = (s \<noteq> [])"
| "truthy (JArr xs) = True"
| "truthy (JObj kvs) = True"

definition truthyOpt :: "json option \<Rightarrow> bool" where
  "truthyOpt v = (case v of None \<Rightarrow> False | Some w \<Rightarrow> truthy w)"

definition digitChar :: "nat \<Rightarrow> char" where
  "digitChar n = char_of (48 + n)"

function showNat :: "nat \<Rightarrow> string" where
  "showNat n = (if n < 10 then [digitChar n] else showNat (n div 10) @ [digitChar (n mod 10)])"
  by pat_completeness auto
termination
  by (relation "measure (\<lambda>n. n)") auto

declare showNat.simps [simp del]

definition showInt :: "int \<Rightarrow> string" where
  "showInt i = (if i < 0 then CHR ''-'' # showNat (nat (- i)) else showNat (nat i))"

definition joinWith :: "string \<Rightarrow> string list \<Rightarrow> string" where
  "joinWith sep xs = (case xs of [] \<Rightarrow> [] | y # ys \<Rightarrow> foldl (\<lambda>acc x. acc @ sep @ x) y ys)"

text \<open>
  \<open>String(v)\<close>. An array is its elements joined by commas, \<open>null\<close> elements giving the empty
  string; an object (which after \<open>JSON.parse\<close> has no \<open>toString\<close> of its own that could be
  called) is \<open>[object Object]\<close>.
\<close>

fun jsString :: "json \<Rightarrow> string" and jsElemStrings :: "json list \<Rightarrow> string list" where
  "jsString JNull = ''null''"
| "jsString (JBool b) = (if b then ''true'' else ''false'')"
| "jsString (JNum n) = showInt n"
| "jsString (JStr s) = s"
| "jsString (JArr xs) = joinWith '','' (jsElemStrings xs)"
| "jsString (JObj kvs) = ''[object Object]''"
| "jsElemStrings [] = []"
| "jsElemStrings (x # xs) = (if x = JNull then [] else jsString x) # jsElemStrings xs"

section \<open>searchHelpers: sponsored snippets\<close>

text \<open>
  A pattern \<open>/\b(w1|w2|...)\b/i\<close> with lower-case words, matched against the string in
  lower case (which moves no word boundary): at some position after a word boundary one
  of the words stands, and a word boundary follows it.
\<close>

definition wordAt :: "string \<Rightarrow> string \<Rightarrow> bool" where
  "wordAt s w =
     (startsWith s w \<and> wordBoundary (headOpt (rev w)) (headOpt (drop (length w) s)))"

fun wholeWordFrom :: "string list \<Rightarrow> char option \<Rightarrow> string \<Rightarrow> bool" where
  "wholeWordFrom ws prev [] = False"
| "wholeWordFrom ws prev (c # cs) =
     ((wordBoundary prev (Some c) \<and> list_ex (wordAt (c # cs)) ws) \<or>
      wholeWordFrom ws (Some c) cs)"

declare wholeWordFrom.simps [simp del]

definition hasWholeWord :: "string list \<Rightarrow> string \<Rightarrow> bool" where
  "hasWholeWord ws s = wholeWordFrom ws None (toLowerCase s)"

text \<open>\<open>/\b(ad|ads|advertisement|sponsored|sponsor|advert)\b/i\<close>\<close>

definition adTextPattern :: "string \<Rightarrow> bool" where
  "adTextPattern s =
     hasWholeWord [''ad'', ''ads'', ''advertisement'', ''sponsored'', ''sponsor'', ''advert''] s"

text \<open>
  The four patterns of \<open>hasAdSignal\<close> for a string value: \<open>/\bad\b/i\<close>,
  \<open>/\badvertisement\b/i\<close>, \<open>/\bsponsored\b/i\<close>, \<open>/\badvert\b/i\<close>.
\<close>

definition adPatterns :: "string \<Rightarrow> bool" where
  "adPatterns s =
     (hasWholeWord [''ad''] s \<or> hasWholeWord [''advertisement''] s \<or>
      hasWholeWord [''sponsored''] s \<or> hasWholeWord [''advert''] s)"

text \<open>
  \<open>/(^|[^a-z])ad([^a-z]|$)|sponsor|advert/i\<close>, for the value under a key that holds
  \<open>address\<close>, \<open>badge\<close> or \<open>label\<close>, matched against the value in lower case. First
  alternative: \<open>ad\<close> with no letter before it and none after it.
\<close>

fun adStandalone :: "char option \<Rightarrow> string \<Rightarrow> bool" where
  "adStandalone prev [] = False"
| "adStandalone prev (c # cs) =
     (((case prev of None \<Rightarrow> True | Some p \<Rightarrow> \<not> isAlpha p) \<and>
       startsWith (c # cs) ''ad'' \<and>
       (case drop 2 (c # cs) of [] \<Rightarrow> True | n # _ \<Rightarrow> \<not> isAlpha n)) \<or>
      adStandalone (Some c) cs)"

declare adStandalone.simps [simp del]

definition adValuePattern :: "string \<Rightarrow> bool" where
  "adValuePattern s =
     (let l = toLowerCase s in
      adStandalone None l \<or> includesStr l ''sponsor'' \<or> includesStr l ''advert'')"

text \<open>
  \<open>adKeyPatterns\<close>: \<open>/^ad$/\<close>, \<open>/^ads$/\<close>, \<open>/^ad_/\<close>, \<open>/_ad$/\<close>, \<open>/^sponsored$/\<close>,
  \<open>/^sponsored_/\<close>, \<open>/_sponsored$/\<close>, \<open>/^advertisement$/\<close>, \<open>/^advert$/\<close>.
\<close>

definition adKeyPatterns :: "string \<Rightarrow> bool" where
  "adKeyPatterns keyStr =
     (keyStr = ''ad'' \<or> keyStr = ''ads'' \<or> startsWith keyStr ''ad_'' \<or> endsWith keyStr ''_ad'' \<or>
      keyStr = ''sponsored'' \<or> startsWith keyStr ''sponsored_'' \<or>
      endsWith keyStr ''_sponsored'' \<or> keyStr = ''advertisement'' \<or> keyStr = ''advert'')"

text \<open>The keys the generic scan leaves out: they hold \<open>address\<close>, \<open>badge\<close> or \<open>label\<close>.\<close>

definition avoidedKey :: "string \<Rightarrow> bool" where
  "avoidedKey keyStr =
     (includesStr keyStr ''address'' \<or> includesStr keyStr ''badge'' \<or> includesStr keyStr ''label'')"

text \<open>\<open>val === true || typeof val === "number" || typeof val === "string"\<close>\<close>

fun adKeyValue :: "json \<Rightarrow> bool" where
  "adKeyValue (JBool b) = b"
| "adKeyValue (JNum n) = True"
| "adKeyValue (JStr s) = True"
| "adKeyValue v = False"

text \<open>
  \<open>hasAdSignal(value, depth)\<close>. The loop over the entries returns \<open>true\<close> at the first
  entry that gives a signal and \<open>false\<close> after the last: some entry gives one. The keys
  of an array are its indices, which no key pattern matches, so that only its elements
  are scanned.
\<close>

function hasAdSignal :: "json \<Rightarrow> nat \<Rightarrow> bool" where
  "hasAdSignal v depth =
     (if \<not> truthy v \<or> depth > 4 then False
      else (case v of
              JStr s \<Rightarrow> adPatterns s
            | JArr xs \<Rightarrow> list_ex (\<lambda>val. hasAdSignal val (depth + 1)) xs
            | JObj kvs \<Rightarrow>
                list_ex (\<lambda>kv.
                  (let keyStr = toLowerCase (fst kv); val = snd kv in
                   if avoidedKey keyStr
                   then (case val of JStr s \<Rightarrow> adValuePattern s | _ \<Rightarrow> False)
                   else (adKeyPatterns keyStr \<and> adKeyValue val) \<or> hasAdSignal val (depth + 1)))
                  kvs
            | _ \<Rightarrow> False))"
  by pat_completeness auto
termination
  by (relation "measure (\<lambda>(v, depth). 5 - depth)") auto

declare hasAdSignal.simps [simp del]



text \<open>\<open>String(x || "")\<close> for a property that may be missing.\<close>

definition stringOrEmpty :: "json option \<Rightarrow> string" where
  "stringOrEmpty v = (case v of None \<Rightarrow> [] | Some w \<Rightarrow> if truthy w then jsString w else [])"

definition flagKeys :: "string list" where
  "flagKeys = [''is_ad'', ''is_sponsored'', ''sponsored'', ''advertisement'']"

definition textFieldKeys :: "string list" where
  "textFieldKeys = [''badge'', ''ad_badge'', ''label'', ''sponsored_tag'', ''promo_label'']"

text \<open>\<open>[raw.badge?.text, ...].filter(Boolean)\<close> and \<open>raw.badges.map((b) => b?.text).filter(Boolean)\<close>\<close>

definition textFields :: "json \<Rightarrow> json list" where
  "textFields raw =
     filter truthy (List.map_filter (\<lambda>k. getPath2 raw k ''text'') textFieldKeys)"

definition badgeTexts :: "json \<Rightarrow> json list" where
  "badgeTexts raw =
     (case getProp raw ''badges'' of
        Some (JArr bs) \<Rightarrow> filter truthy (List.map_filter (\<lambda>b. getProp b ''text'') bs)
      | _ \<Rightarrow> [])"

definition isSponsoredSnippet :: "json \<Rightarrow> bool" where
  "isSponsoredSnippet snip =
     (let raw = (case getProp snip ''data'' of
                   None \<Rightarrow> JObj []
                 | Some d \<Rightarrow> if truthy d then d else JObj []);
          widgetType = toLowerCase (stringOrEmpty (getProp snip ''widget_type''))
      in if includesStr widgetType ''ad'' \<or> includesStr widgetType ''sponsor'' then True
         else if list_ex (\<lambda>key. getProp raw key = Some (JBool True)) flagKeys then True
         else if list_ex (\<lambda>txt. adTextPattern (jsString txt)) (textFields raw) then True
         else if list_ex (\<lambda>txt. adTextPattern (jsString txt)) (badgeTexts raw) then True
         else if hasAdSignal snip 0 then True
         else False)"

section \<open>searchHelpers: product extraction\<close>

text \<open>A product record. A field holds whatever value the payload has there.\<close>

record product =
  p_id :: json
  p_name :: json
  p_price :: json
  p_originalPrice :: json
  p_savings :: json
  p_quantity :: json
  p_deliveryTime :: json
  p_discount :: json
  p_imageUrl :: json
  p_available :: bool

datatype error = TypeError

text \<open>The rupee sign, in UTF-8.\<close>

definition rupee :: string where
  "rupee = [CHR 0xE2, CHR 0x82, CHR 0xB9]"

text \<open>
  The pattern of \<open>price.match\<close>: the rupee sign, \<open>\s*\<close>, then \<open>(\d+(?:\.\d+)?)\<close>. The
  amount of the leftmost match.
\<close>

definition rupeeAt :: "string \<Rightarrow> rat option" where
  "rupeeAt s =
     (if startsWith s rupee then
        (case matchNumber (dropWhile isSpace (drop (length rupee) s)) of
           Some (ip, fp, r) \<Rightarrow> Some (parseFloat ip fp)
         | None \<Rightarrow> None)
      else None)"

fun findRupeeAmount :: "string \<Rightarrow> rat option" where
  "findRupeeAmount [] = None"
| "findRupeeAmount (c # cs) =
     (case rupeeAt (c # cs) of Some a \<Rightarrow> Some a | None \<Rightarrow> findRupeeAmount cs)"

declare findRupeeAmount.simps [simp del]

text \<open>\<open>x.match(re)\<close> on a field: a value that is not a string has no \<open>match\<close> method.\<close>

fun matchRupee :: "json \<Rightarrow> error + rat option" where
  "matchRupee (JStr s) = Inr (findRupeeAmount s)"
| "matchRupee v = Inl TypeError"

text \<open>\<open>n.toFixed(2)\<close> of an integer, and \<open>x.toFixed(0)\<close> of a positive amount.\<close>

definition toFixed2 :: "int \<Rightarrow> string" where
  "toFixed2 n = showInt n @ ''.00''"

definition toFixed0 :: "rat \<Rightarrow> string" where
  "toFixed0 x = showInt (\<lfloor>x + 1 / 2\<rfloor>)"

text \<open>
  \<open>Number(s) > 0\<close> for a string: after trimming, a binary, octal or hexadecimal literal
  with a digit that is not zero, or a decimal literal (or \<open>Infinity\<close>) without a minus
  sign whose mantissa has a digit that is not zero. Anything else is zero, negative or
  \<open>NaN\<close>.
\<close>

definition radixLiteralPositive :: "(char \<Rightarrow> bool) \<Rightarrow> string \<Rightarrow> bool" where
  "radixLiteralPositive valid ds =
     (ds \<noteq> [] \<and> list_all valid ds \<and> list_ex (\<lambda>c. c \<noteq> CHR ''0'') ds)"

definition exponentPart :: "string \<Rightarrow> bool" where
  "exponentPart r =
     (case r of
        [] \<Rightarrow> True
      | e # r1 \<Rightarrow>
          (e = CHR ''e'' \<or> e = CHR ''E'') \<and>
          (let ds = (case r1 of
                       [] \<Rightarrow> []
                     | sg # r2 \<Rightarrow> if sg = CHR ''+'' \<or> sg = CHR ''-'' then r2 else r1)
           in ds \<noteq> [] \<and> list_all isDigit ds))"

definition decimalLiteralPositive :: "string \<Rightarrow> bool" where
  "decimalLiteralPositive s =
     (if s = ''Infinity'' then True
      else let ip = takeWhile isDigit s; r = dropWhile isDigit s;
               dot = (r \<noteq> [] \<and> hd r = CHR ''.'');
               fp = (if dot then takeWhile isDigit (tl r) else []);
               r' = (if dot then dropWhile isDigit (tl r) else r)
           in (ip \<noteq> [] \<or> fp \<noteq> []) \<and> exponentPart r' \<and>
              list_ex (\<lambda>c. c \<noteq> CHR ''0'') (ip @ fp))"

definition stringToNumberPositive :: "string \<Rightarrow> bool" where
  "stringToNumberPositive s =
     (let t = trim s; l = toLowerCase t in
      if t = [] then False
      else if startsWith l ''0x'' then
        radixLiteralPositive (\<lambda>c. isDigit c \<or> c \<in> set ''abcdefABCDEF'') (drop 2 t)
      else if startsWith l ''0o'' then radixLiteralPositive (\<lambda>c. c \<in> set ''01234567'') (drop 2 t)
      else if startsWith l ''0b'' then radixLiteralPositive (\<lambda>c. c \<in> set ''01'') (drop 2 t)
      else if hd t = CHR ''-'' then False
      else decimalLiteralPositive (if hd t = CHR ''+'' then tl t else t))"

text \<open>\<open>v > 0\<close>, the comparison converting \<open>v\<close> to a number.\<close>

fun jsGreaterThanZero :: "json \<Rightarrow> bool" where
  "jsGreaterThanZero JNull = False"
| "jsGreaterThanZero (JBool b) = b"
| "jsGreaterThanZero (JNum n) = (n > 0)"
| "jsGreaterThanZero (JStr s) = stringToNumberPositive s"
| "jsGreaterThanZero (JArr xs) = stringToNumberPositive (jsString (JArr xs))"
| "jsGreaterThanZero (JObj kvs) = False"

text \<open>
  \<open>raw.hasOwnProperty('is_sold_out') ? !raw.is_sold_out
     : (raw.hasOwnProperty('inventory') ? raw.inventory > 0 : true)\<close>.
  An entry of \<open>raw\<close> under the key \<open>hasOwnProperty\<close> hides the method, and the call throws.
\<close>

definition avail :: "json \<Rightarrow> error + bool" where
  "avail raw =
     (if getProp raw ''hasOwnProperty'' \<noteq> None then Inl TypeError
      else (case getProp raw ''is_sold_out'' of
              Some sold \<Rightarrow> Inr (\<not> truthy sold)
            | None \<Rightarrow>
                (case getProp raw ''inventory'' of
                   Some inventory \<Rightarrow> Inr (jsGreaterThanZero inventory)
                 | None \<Rightarrow> Inr True)))"

text \<open>\<open>a.k1 && a.k1.k2 ? a.k1.k2 : dflt\<close>\<close>

definition fieldOr :: "json \<Rightarrow> string \<Rightarrow> string \<Rightarrow> json \<Rightarrow> json" where
  "fieldOr raw k1 k2 dflt =
     (case getProp raw k1 of
        None \<Rightarrow> dflt
      | Some a \<Rightarrow>
          (if truthy a then
             (case getProp a k2 of None \<Rightarrow> dflt | Some b \<Rightarrow> if truthy b then b else dflt)
           else dflt))"

text \<open>\<open>raw.k1 && raw.k1.title && raw.k1.title.text ? raw.k1.title.text : dflt\<close>\<close>

definition titleTextOr :: "json \<Rightarrow> string \<Rightarrow> json \<Rightarrow> json" where
  "titleTextOr raw k1 dflt =
     (case getProp raw k1 of
        None \<Rightarrow> dflt
      | Some a \<Rightarrow> if truthy a then fieldOr a ''title'' ''text'' dflt else dflt)"

definition price_of :: "json \<Rightarrow> json" where
  "price_of raw =
     (let np = fieldOr raw ''normal_price'' ''text'' JNull in
      if np \<noteq> JNull then np
      else (case getProp raw ''price'' of
              Some (JNum n) \<Rightarrow>
                if n \<noteq> 0 then JStr (rupee @ toFixed2 n) else JStr ''Price Not Available''
            | _ \<Rightarrow> JStr ''Price Not Available''))"

text \<open>\<open>raw.offer_tag.title.text.replace(/\n/g, ' ')\<close>, when that text is there.\<close>

definition discount_of :: "json \<Rightarrow> error + json" where
  "discount_of raw =
     (case titleTextOr raw ''offer_tag'' JNull of
        JNull \<Rightarrow> Inr JNull
      | JStr s \<Rightarrow> Inr (JStr (map (\<lambda>c. if c = CHR 0x0A then CHR '' '' else c) s))
      | _ \<Rightarrow> Inl TypeError)"

definition savings_of :: "json \<Rightarrow> json \<Rightarrow> error + json" where
  "savings_of origPrice price =
     (if truthy origPrice \<and> truthy price then
        (case matchRupee price of
           Inl e \<Rightarrow> Inl e
         | Inr prMatch \<Rightarrow>
             (case matchRupee origPrice of
                Inl e \<Rightarrow> Inl e
              | Inr opMatch \<Rightarrow>
                  (case (prMatch, opMatch) of
                     (Some curPrice, Some orgPrice) \<Rightarrow>
                       if orgPrice > curPrice
                       then Inr (JStr (rupee @ toFixed0 (orgPrice - curPrice)))
                       else Inr JNull
                   | _ \<Rightarrow> Inr JNull)))
      else Inr JNull)"

text \<open>
  The body of the \<open>try\<close> block for the snippet at index \<open>idx\<close> with data \<open>raw\<close>: the product,
  or the error that the \<open>catch\<close> will see.
\<close>

definition extractFields :: "nat \<Rightarrow> json \<Rightarrow> error + product" where
  "extractFields idx raw =
     (let ident = (case getPath2 raw ''identity'' ''id'' of
                     None \<Rightarrow> JStr (''product_'' @ showNat idx)
                   | Some i \<Rightarrow> if truthy i then i else JStr (''product_'' @ showNat idx));
          name = fieldOr raw ''name'' ''text'' (JStr ''Product Name Not Available'');
          price = price_of raw;
          origPrice = fieldOr raw ''mrp'' ''text'' JNull;
          qty = fieldOr raw ''variant'' ''text'' (JStr ''N/A'');
          imgUrl = fieldOr raw ''image'' ''url'' (JStr []);
          delTime = titleTextOr raw ''eta_tag'' (JStr ''N/A'')
      in case discount_of raw of
           Inl e \<Rightarrow> Inl e
         | Inr disc \<Rightarrow>
             (case avail raw of
                Inl e \<Rightarrow> Inl e
              | Inr av \<Rightarrow>
                  (case savings_of origPrice price of
                     Inl e \<Rightarrow> Inl e
                   | Inr savings \<Rightarrow>
                       Inr \<lparr>p_id = ident, p_name = name, p_price = price,
                            p_originalPrice = origPrice, p_savings = savings,
                            p_quantity = qty, p_deliveryTime = delTime, p_discount = disc,
                            p_imageUrl = imgUrl, p_available = av\<rparr>)))"

text \<open>
  The callback of \<open>snippets.forEach\<close>: \<open>Inr None\<close> when the snippet is left out (sponsored,
  not a product, or an error caught by the \<open>catch\<close>), \<open>Inr (Some p)\<close> when \<open>p\<close> is pushed,
  \<open>Inl\<close> when the callback throws. The guard reads \<open>snip.data\<close> outside the \<open>try\<close> block
  and without \<open>?.\<close>: on a \<open>null\<close> snippet that read throws.
\<close>

definition processSnippet :: "nat \<Rightarrow> json \<Rightarrow> error + product option" where
  "processSnippet idx snip =
     (if isSponsoredSnippet snip then Inr None
      else if snip = JNull then Inl TypeError
      else (case getProp snip ''data'' of
              None \<Rightarrow> Inr None
            | Some raw \<Rightarrow>
                if \<not> truthy raw
                   \<or> getProp snip ''widget_type'' = Some (JStr ''image_text_vr_type_header'')
                   \<or> \<not> truthyOpt (getProp raw ''name'')
                   \<or> \<not> truthyOpt (getProp raw ''identity'')
                   \<or> getPath2 raw ''identity'' ''id'' = Some (JStr ''product_container'')
                then Inr None
                else (case extractFields idx raw of
                        Inl e \<Rightarrow> Inr None
                      | Inr p \<Rightarrow> Inr (Some p))))"

text \<open>\<open>snippets.forEach\<close>, pushing onto \<open>prods\<close>; an error of the callback ends it.\<close>

fun forEachSnippet :: "nat \<Rightarrow> json list \<Rightarrow> product list \<Rightarrow> error + product list" where
  "forEachSnippet idx [] prods = Inr prods"
| "forEachSnippet idx (snip # rest) prods =
     (case processSnippet idx snip of
        Inl e \<Rightarrow> Inl e
      | Inr None \<Rightarrow> forEachSnippet (idx + 1) rest prods
      | Inr (Some p) \<Rightarrow> forEachSnippet (idx + 1) rest (prods @ [p]))"

text \<open>\<open>extractProductInformation(prodJson)\<close>; \<open>JNull\<close> also stands for no argument.\<close>

definition extractProductInformation :: "json \<Rightarrow> error + product list" where
  "extractProductInformation prodJson =
     (if \<not> truthy prodJson \<or> \<not> truthyOpt (getProp prodJson ''response'') then Inr []
      else (case getPath2 prodJson ''response'' ''snippets'' of
              Some (JArr snippets) \<Rightarrow> forEachSnippet 0 snippets []
            | _ \<Rightarrow> Inr []))"

text \<open>
  The marker \<open>{ useHtmlExtraction: true, page }\<close> that \<open>runBlinkitSearchWithMeta\<close> passes on
  when no product response arrived within 30 seconds; the page handle is an object.
\<close>

definition htmlFallbackMarker :: json where
  "htmlFallbackMarker = JObj [(''useHtmlExtraction'', JBool True), (''page'', JObj [])]"

section \<open>batchCsvService: CSV and the start of a batch\<close>







text \<open>
  The start of \<open>runBlinkitBatchCsv\<close>, up to the launch of the browser. An argument is \<open>None\<close>
  when the caller left it out; \<open>quantities\<close> then takes its default \<open>[]\<close>. The result is the
  list of effects so far and either the message of the error thrown or
  \<open>expandedSearchTerms\<close>.
\<close>

datatype batch_event = MakeOutputDir | LaunchBrowser

fun nonEmptyArray :: "json option \<Rightarrow> bool" where
  "nonEmptyArray (Some (JArr xs)) = (length xs \<noteq> 0)"
| "nonEmptyArray v = False"

fun isArray :: "json \<Rightarrow> bool" where
  "isArray (JArr xs) = True"
| "isArray v = False"

fun arrayItems :: "json option \<Rightarrow> json list" where
  "arrayItems (Some (JArr xs)) = xs"
| "arrayItems v = []"

text \<open>The template \<open>`${term} ${qty}`.trim()\<close>\<close>

definition expandedTerm :: "json \<Rightarrow> json \<Rightarrow> json" where
  "expandedTerm term qty = JStr (trim (jsString term @ '' '' @ jsString qty))"

definition expandSearchTerms :: "json list \<Rightarrow> json list \<Rightarrow> json list" where
  "expandSearchTerms searchTerms quantities =
     (if length quantities > 0
      then concat (map (\<lambda>term. map (\<lambda>qty. expandedTerm term qty) quantities) searchTerms)
      else searchTerms)"

text \<open>The parameter \<open>quantities = []\<close>: the argument, or \<open>[]\<close> when there is none.\<close>

definition quantitiesParam :: "json option \<Rightarrow> json" where
  "quantitiesParam quantitiesArg = (case quantitiesArg of None \<Rightarrow> JArr [] | Some q \<Rightarrow> q)"

definition runBlinkitBatchCsv_start ::
  "json option \<Rightarrow> json option \<Rightarrow> json option \<Rightarrow> batch_event list \<times> (string + json list)" where
  "runBlinkitBatchCsv_start pincodes searchTerms quantitiesArg =
     (let quantities = quantitiesParam quantitiesArg in
      if \<not> nonEmptyArray pincodes then ([], Inl ''pincodes must be a non-empty array'')
      else if \<not> nonEmptyArray searchTerms then ([], Inl ''searchTerms must be a non-empty array'')
      else if \<not> isArray quantities then ([], Inl ''quantities must be an array'')
      else ([MakeOutputDir, LaunchBrowser],
            Inr (expandSearchTerms (arrayItems searchTerms) (arrayItems (Some quantities)))))"

section \<open>set-location\<close>

text \<open>
  What the page shows during one attempt: either a step before the label is read throws
  (the location input is not found, typing fails), or the label selectors are read; a
  selector gives \<open>None\<close> when waiting for it or reading it throws, else its trimmed text.
\<close>

datatype attempt_page = StepThrows | LabelTexts "string option list"

text \<open>\<open>/select|enter/i\<close>\<close>

definition promptText :: "string \<Rightarrow> bool" where
  "promptText txt =
     (includesStr (toLowerCase txt) ''select'' \<or> includesStr (toLowerCase txt) ''enter'')"

fun getFirstTextFromSelectors :: "string option list \<Rightarrow> string" where
  "getFirstTextFromSelectors [] = []"
| "getFirstTextFromSelectors (None # sels) = getFirstTextFromSelectors sels"
| "getFirstTextFromSelectors (Some txt # sels) =
     (if txt \<noteq> [] \<and> \<not> promptText txt then txt else getFirstTextFromSelectors sels)"










text \<open>
  The other \<open>set-location\<close> file of the repository holds an earlier \<open>setBlinkitLocation\<close>: one
  attempt, no check of the pincode, and an \<open>isLocationSet\<close> that falls back to the text
  that was asked for.
\<close>

definition isLocationSet_fallback :: "string option list \<Rightarrow> string \<Rightarrow> string" where
  "isLocationSet_fallback sels fallbackValue =
     (let txt = getFirstTextFromSelectors sels in
      if txt \<noteq> [] then txt else if fallbackValue \<noteq> [] then fallbackValue else ''400'')"

definition setBlinkitLocation_single :: "attempt_page \<Rightarrow> string \<Rightarrow> string option" where
  "setBlinkitLocation_single page loc =
     (case page of
        StepThrows \<Rightarrow> None
      | LabelTexts sels \<Rightarrow>
          (let locTitle = isLocationSet_fallback sels loc in
           if locTitle \<noteq> [] \<and> locTitle \<noteq> ''400'' then Some locTitle else None))"

section \<open>The specification's wording, for comparison\<close>










section \<open>Example payloads\<close>

text \<open>A product snippet that is sold out, one named \<open>Washed Carrots\<close>, and payloads of them.\<close>

definition onionData :: json where
  "onionData = JObj [(''name'', JObj [(''text'', JStr ''Onion'')]),
                     (''identity'', JObj [(''id'', JStr ''p1'')]),
                     (''is_sold_out'', JBool True), (''inventory'', JNum 5)]"

definition onionSnippet :: json where
  "onionSnippet = JObj [(''data'', onionData)]"

definition onionProduct :: product where
  "onionProduct = \<lparr>p_id = JStr ''p1'', p_name = JStr ''Onion'',
     p_price = JStr ''Price Not Available'', p_originalPrice = JNull, p_savings = JNull,
     p_quantity = JStr ''N/A'', p_deliveryTime = JStr ''N/A'', p_discount = JNull,
     p_imageUrl = JStr [], p_available = False\<rparr>"


definition snippetsPayload :: "json list \<Rightarrow> json" where
  "snippetsPayload snippets = JObj [(''response'', JObj [(''snippets'', JArr snippets)])]"

section \<open>Lemmas on strings\<close>












section \<open>C1: the quantity-tolerance match\<close>








lemma findQuantity_onions: "findQuantity None ''onions'' = None"
  by code_simp






section \<open>C8: the quantity filter is fail-open\<close>

text \<open>
  C8. A product is not dropped by the quantity filter when the search term holds no
  quantity or when the product's quantity string does not parse; \<open>""\<close> and the sentinel
  \<open>"N/A"\<close> do not parse. The term \<open>onions\<close> keeps a product of quantity \<open>500g\<close>.
\<close>

theorem quantity_filter_fail_open:
  "(extractQuantityFromTerm query = None \<or> normalizeQuantityValue productQty = None \<longrightarrow>
      \<not> quantityFilterDrops query productQty)
   \<and> (requestedQty = None \<or> normalizeQuantityValue productQty = None \<longrightarrow>
      matchesQuantity productQty requestedQty)
   \<and> normalizeQuantityValue ''N/A'' = None
   \<and> normalizeQuantityValue [] = None
   \<and> \<not> quantityFilterDrops ''onions'' ''500g''"
proof -
  have a: "extractQuantityFromTerm query = None \<or> normalizeQuantityValue productQty = None \<longrightarrow>
      \<not> quantityFilterDrops query productQty"
    by (auto simp: quantityFilterDrops_def matchesQuantity_def Let_def split: option.splits)
  have b: "requestedQty = None \<or> normalizeQuantityValue productQty = None \<longrightarrow>
      matchesQuantity productQty requestedQty"
    by (auto simp: matchesQuantity_def split: option.splits)
  have c: "normalizeQuantityValue ''N/A'' = None" "normalizeQuantityValue [] = None"
    by (simp_all add: normalizeQuantityValue_def)
  have d: "\<not> quantityFilterDrops ''onions'' ''500g''"
    by (simp add: quantityFilterDrops_def extractQuantityFromTerm_def findQuantity_onions)
  from a b c d show ?thesis by blast
qed

theorem quantity_filter_fail_open_witness:
  "extractQuantityFromTerm ''onions'' = None \<and> \<not> quantityFilterDrops ''onions'' ''500g''
   \<and> normalizeQuantityValue ''N/A'' = None
   \<and> matchesQuantity ''N/A'' (extractQuantityFromTerm ''onions 1kg'')"
proof -
  have h: "extractQuantityFromTerm ''onions'' = None"
    by (simp add: extractQuantityFromTerm_def findQuantity_onions)
  have n: "normalizeQuantityValue ''N/A'' = None"
    by (simp add: normalizeQuantityValue_def)
  from quantity_filter_fail_open [where query = "''onions''" and productQty = "''500g''"] h
  have 1: "\<not> quantityFilterDrops ''onions'' ''500g''" by blast
  from quantity_filter_fail_open [where productQty = "''N/A''"
      and requestedQty = "extractQuantityFromTerm ''onions 1kg''"] n
  have 2: "matchesQuantity ''N/A'' (extractQuantityFromTerm ''onions 1kg'')" by blast
  from h n 1 2 show ?thesis by blast
qed

section \<open>C3: the term-token match\<close>
















section \<open>C6: the expansion of the search terms\<close>









section \<open>C7: the validation of the input\<close>

text \<open>
  C7. \<open>runBlinkitBatchCsv\<close> throws its input error exactly when \<open>pincodes\<close> is not an array
  or is empty, \<open>searchTerms\<close> is not an array or is empty, or the parameter \<open>quantities\<close>
  (the argument, or \<open>[]\<close> when it is left out) is not an array; it throws before any
  effect, and otherwise goes on to create the output directory and launch the browser.
\<close>

theorem batch_input_validation:
  "(isl (snd (runBlinkitBatchCsv_start pincodes searchTerms quantitiesArg)) \<longleftrightarrow>
      (\<forall>xs. pincodes \<noteq> Some (JArr xs)) \<or> pincodes = Some (JArr []) \<or>
      (\<forall>xs. searchTerms \<noteq> Some (JArr xs)) \<or> searchTerms = Some (JArr []) \<or>
      (\<forall>xs. quantitiesParam quantitiesArg \<noteq> JArr xs))
   \<and> (isl (snd (runBlinkitBatchCsv_start pincodes searchTerms quantitiesArg)) \<longrightarrow>
        fst (runBlinkitBatchCsv_start pincodes searchTerms quantitiesArg) = [])
   \<and> (\<not> isl (snd (runBlinkitBatchCsv_start pincodes searchTerms quantitiesArg)) \<longrightarrow>
        fst (runBlinkitBatchCsv_start pincodes searchTerms quantitiesArg) =
          [MakeOutputDir, LaunchBrowser])"
proof -
  have p: "nonEmptyArray v \<longleftrightarrow> \<not> ((\<forall>xs. v \<noteq> Some (JArr xs)) \<or> v = Some (JArr []))" for v
    by (cases v rule: nonEmptyArray.cases) auto
  have q: "isArray v \<longleftrightarrow> \<not> (\<forall>xs. v \<noteq> JArr xs)" for v
    by (cases v) auto
  show ?thesis
    unfolding runBlinkitBatchCsv_start_def Let_def p q by auto
qed

theorem batch_input_validation_witness:
  "isl (snd (runBlinkitBatchCsv_start (Some (JArr [])) (Some (JArr [JStr ''onions''])) None))
   \<and> fst (runBlinkitBatchCsv_start (Some (JArr [])) (Some (JArr [JStr ''onions''])) None) = []
   \<and> isl (snd (runBlinkitBatchCsv_start (Some (JArr [JStr ''575006''])) (Some (JArr [JStr ''onions'']))
             (Some (JStr ''1kg''))))
   \<and> \<not> isl (snd (runBlinkitBatchCsv_start (Some (JArr [JStr ''575006'']))
               (Some (JArr [JStr ''onions''])) None))
   \<and> fst (runBlinkitBatchCsv_start (Some (JArr [JStr ''575006''])) (Some (JArr [JStr ''onions''])) None)
       = [MakeOutputDir, LaunchBrowser]"
  using batch_input_validation [of "Some (JArr [])" "Some (JArr [JStr ''onions''])" None]
    batch_input_validation [of "Some (JArr [JStr ''575006''])" "Some (JArr [JStr ''onions''])"
      "Some (JStr ''1kg'')"]
    batch_input_validation [of "Some (JArr [JStr ''575006''])" "Some (JArr [JStr ''onions''])" None]
  by (simp add: quantitiesParam_def)

section \<open>C9: CSV escaping and its round trip\<close>

















section \<open>C4: setting the location\<close>





text \<open>
  The earlier version makes one attempt and does not check the pincode: when no label
  can be read it returns the text that was asked for, and it accepts a label of another
  place.
\<close>

lemma single_attempt_version:
  "setBlinkitLocation_single (LabelTexts []) ''575006'' = Some ''575006''"
  "setBlinkitLocation_single (LabelTexts [Some ''Home - Andheri, Mumbai 400053'']) ''575006'' =
     Some ''Home - Andheri, Mumbai 400053''"
  "setBlinkitLocation_single StepThrows ''575006'' = None"
  by code_simp+



section \<open>Product extraction\<close>

lemma isSponsoredSnippet_null: "isSponsoredSnippet JNull = False"
  by code_simp

lemma processSnippet_null: "processSnippet idx JNull = Inl TypeError"
  by (simp add: processSnippet_def isSponsoredSnippet_null)

lemma processSnippet_nonnull: "snip \<noteq> JNull \<Longrightarrow> \<exists>r. processSnippet idx snip = Inr r"
  by (simp add: processSnippet_def split: option.splits sum.splits)

lemma forEachSnippet_null:
  "JNull \<in> set snippets \<Longrightarrow> forEachSnippet idx snippets prods = Inl TypeError"
proof (induction snippets arbitrary: idx prods)
  case Nil
  then show ?case by simp
next
  case (Cons snip rest)
  show ?case
  proof (cases "snip = JNull")
    case True
    then show ?thesis by (simp add: processSnippet_null)
  next
    case False
    then obtain r where r: "processSnippet idx snip = Inr r"
      using processSnippet_nonnull by blast
    from False Cons.prems have "JNull \<in> set rest" by simp
    then show ?thesis using Cons.IH r by (cases r) simp_all
  qed
qed

lemma forEachSnippet_nonnull:
  "JNull \<notin> set snippets \<Longrightarrow> \<exists>out. forEachSnippet idx snippets prods = Inr out"
proof (induction snippets arbitrary: idx prods)
  case Nil
  then show ?case by simp
next
  case (Cons snip rest)
  then obtain r where r: "processSnippet idx snip = Inr r"
    using processSnippet_nonnull [of snip idx] by auto
  from Cons.prems have "JNull \<notin> set rest" by simp
  then show ?case using Cons.IH r by (cases r) simp_all
qed


lemma extract_no_snippets:
  "(\<forall>xs. getPath2 prodJson ''response'' ''snippets'' \<noteq> Some (JArr xs)) \<Longrightarrow>
     extractProductInformation prodJson = Inr []"
  by (auto simp: extractProductInformation_def split: option.splits json.splits)

lemma extract_fallback: "extractProductInformation htmlFallbackMarker = Inr []"
  by (simp add: extractProductInformation_def htmlFallbackMarker_def truthyOpt_def)

lemma processSnippet_caught:
  "extractFields idx raw = Inl e \<Longrightarrow> getProp snip ''data'' = Some raw \<Longrightarrow>
     processSnippet idx snip = Inr None"
  by (cases snip) (auto simp: processSnippet_def)




lemma onion_not_sponsored: "\<not> isSponsoredSnippet onionSnippet"
  by code_simp

lemma onion_fields: "extractFields 0 onionData = Inr onionProduct"
  by code_simp

lemma onion_guard:
  "getProp onionSnippet ''data'' = Some onionData" "onionSnippet \<noteq> JNull"
  "truthy onionData" "getProp onionSnippet ''widget_type'' = None"
  "truthyOpt (getProp onionData ''name'')" "truthyOpt (getProp onionData ''identity'')"
  "getPath2 onionData ''identity'' ''id'' = Some (JStr ''p1'')"
  "getProp onionData ''is_sold_out'' = Some (JBool True)"
  by code_simp+

lemma onion_processed: "processSnippet 0 onionSnippet = Inr (Some onionProduct)"
  by (simp add: processSnippet_def onion_not_sponsored onion_guard onion_fields)

lemma extract_payload:
  "extractProductInformation (snippetsPayload snippets) = forEachSnippet 0 snippets []"
  by (simp add: extractProductInformation_def snippetsPayload_def truthyOpt_def getPath2_def)


section \<open>C5: payloads without snippets, and errors in one snippet\<close>

text \<open>
  What holds: a payload without an array at \<open>response.snippets\<close>, such as
  the fallback marker, gives no product; an error thrown in the \<open>try\<close> block of a snippet
  leaves that snippet out; and extraction returns whenever no snippet is \<open>null\<close>.
\<close>

lemma extract_skips_caught_errors:
  "((\<forall>xs. getPath2 prodJson ''response'' ''snippets'' \<noteq> Some (JArr xs)) \<longrightarrow>
      extractProductInformation prodJson = Inr [])
   \<and> extractProductInformation htmlFallbackMarker = Inr []
   \<and> (extractFields idx raw = Inl e \<and> getProp snip ''data'' = Some raw \<longrightarrow>
        processSnippet idx snip = Inr None)
   \<and> (JNull \<notin> set snippets \<longrightarrow>
        (\<exists>out. extractProductInformation (snippetsPayload snippets) = Inr out))"
  using extract_no_snippets [of prodJson] extract_fallback
    processSnippet_caught [of idx raw e snip] forEachSnippet_nonnull [of snippets 0 "[]"]
  by (auto simp: extract_payload)

text \<open>
  C5, where the code breaks it. For the payload whose snippets are the onion product
  followed by \<open>null\<close>, extraction does not skip the \<open>null\<close> snippet and keep the product:
  the guard \<open>!snip.data\<close>, which stands before the \<open>try\<close> block, throws on \<open>null\<close>, and the
  whole call ends with that error. The same product alone is extracted.
\<close>

theorem null_snippet_aborts_extraction:
  "extractProductInformation (snippetsPayload [onionSnippet]) = Inr [onionProduct]
   \<and> extractProductInformation (snippetsPayload [onionSnippet, JNull]) = Inl TypeError"
  by (simp add: extract_payload onion_processed processSnippet_null)

theorem null_snippet_aborts_extraction_witness:
  "extractProductInformation (snippetsPayload [onionSnippet, JNull]) \<noteq> Inr [onionProduct]
   \<and> extractProductInformation (snippetsPayload [onionSnippet, JNull]) \<noteq>
       extractProductInformation (snippetsPayload [onionSnippet])"
  using null_snippet_aborts_extraction by simp

section \<open>C10: the available flag\<close>




section \<open>C2: sponsored snippets\<close>


































end
